theory Spec2Isabelle
  imports Main "HOL-Library.Word"
begin

unbundle bit_operations_syntax

section \<open>Data model\<close>

text \<open>
  The two tools of \<^verbatim>\<open>tools/data\<close>, \<^verbatim>\<open>ip_iter.c\<close> and \<^verbatim>\<open>ip_sub.c\<close>, work on
  \<^verbatim>\<open>uint32_t\<close> and \<^verbatim>\<open>int\<close> values. Both are 32-bit words here; addition wraps, and
  the signed reading of an \<^verbatim>\<open>int\<close> is \<open>sint\<close> (two's complement, as on every target
  the tools are built for).
\<close>

type_synonym uint8_t = "8 word"
type_synonym uint32_t = "32 word"
type_synonym int32_t = "32 word"

text \<open>\<^verbatim>\<open>struct in_addr\<close>: the field \<^verbatim>\<open>s_addr\<close> holds the address in network byte order.\<close>

record in_addr =
  s_addr :: uint32_t

text \<open>The byte order of the host the program runs on.\<close>

datatype endian = LittleEndian | BigEndian

text \<open>
  What a run leaves behind: the exit status returned by \<^verbatim>\<open>main\<close> and the text
  written to standard output and to standard error.
\<close>

record proc =
  exit_status :: int
  stdout :: string
  stderr :: string

text \<open>
  A run of \<^verbatim>\<open>ip_iter\<close> observed for a bounded number of loop tests: it has either
  exited, or it is still inside the loop, having written the given text to standard
  output so far.
\<close>

datatype run = Exited proc | Running string

section \<open>Library functions used by the tools\<close>

text \<open>
  Modelled from the spec: the C library functions \<^verbatim>\<open>htonl\<close>, \<^verbatim>\<open>ntohl\<close>, \<^verbatim>\<open>inet_pton\<close>,
  \<^verbatim>\<open>inet_ntop\<close> and \<^verbatim>\<open>atoi\<close> and the header constants \<^verbatim>\<open>INET_ADDRSTRLEN\<close> and
  \<^verbatim>\<open>INET6_ADDRSTRLEN\<close> are not part of the repository. They are modelled after their
  POSIX descriptions: dotted-decimal text is four decimal octets separated by periods,
  arithmetic is on the host-order value, and the conversion between text and the
  network-order field happens only at the boundary.
\<close>

definition INET_ADDRSTRLEN :: nat where
  "INET_ADDRSTRLEN = 16"

definition INET6_ADDRSTRLEN :: nat where
  "INET6_ADDRSTRLEN = 46"

subsection \<open>Byte order\<close>

text \<open>The four bytes of a 32-bit value, most significant first, and back.\<close>

definition be_bytes :: "uint32_t \<Rightarrow> uint8_t list" where
  "be_bytes w = [ucast (drop_bit 24 w), ucast (drop_bit 16 w), ucast (drop_bit 8 w), ucast w]"

definition be_word :: "uint8_t list \<Rightarrow> uint32_t" where
  "be_word bs = foldl (\<lambda>acc b. push_bit 8 acc OR ucast b) 0 bs"

text \<open>The bytes a host stores for a 32-bit value, in address order, and the value it loads.\<close>

definition store32 :: "endian \<Rightarrow> uint32_t \<Rightarrow> uint8_t list" where
  "store32 e w = (case e of BigEndian \<Rightarrow> be_bytes w | LittleEndian \<Rightarrow> rev (be_bytes w))"

definition load32 :: "endian \<Rightarrow> uint8_t list \<Rightarrow> uint32_t" where
  "load32 e bs = (case e of BigEndian \<Rightarrow> be_word bs | LittleEndian \<Rightarrow> be_word (rev bs))"

text \<open>
  \<^verbatim>\<open>htonl\<close> yields the value whose stored bytes are the argument's bytes in network
  (big-endian) order; \<^verbatim>\<open>ntohl\<close> reads the stored bytes of its argument in network order.
  On a little-endian host both swap the bytes, on a big-endian host both are the identity.
\<close>

definition htonl :: "endian \<Rightarrow> uint32_t \<Rightarrow> uint32_t" where
  "htonl e w = load32 e (be_bytes w)"

definition ntohl :: "endian \<Rightarrow> uint32_t \<Rightarrow> uint32_t" where
  "ntohl e w = be_word (store32 e w)"

subsection \<open>Characters and decimal numbers\<close>

definition isdigit :: "char \<Rightarrow> bool" where
  "isdigit c = (48 \<le> (of_char c :: nat) \<and> (of_char c :: nat) \<le> 57)"

definition isspace :: "char \<Rightarrow> bool" where
  "isspace c = ((of_char c :: nat) = 32 \<or> (9 \<le> (of_char c :: nat) \<and> (of_char c :: nat) \<le> 13))"

definition digit_val :: "char \<Rightarrow> nat" where
  "digit_val c = of_char c - 48"

definition digit_char :: "nat \<Rightarrow> char" where
  "digit_char d = ''0123456789'' ! (d mod 10)"

text \<open>\<^verbatim>\<open>printf("%u")\<close>: the decimal digits of a number, without leading zeros.\<close>

fun dec :: "nat \<Rightarrow> string" where
  "dec n = (if n < 10 then [digit_char n] else dec (n div 10) @ [digit_char (n mod 10)])"

declare dec.simps [simp del]

subsection \<open>Text to address: \<^verbatim>\<open>inet_pton(AF_INET, ...)\<close>\<close>

text \<open>
  The scan keeps \<open>saw_digit\<close>, the number of octets begun and the bytes read so far
  (the last one is the octet being read). An octet is one to three digits with value at
  most 255 and no leading zero; exactly four octets, separated by single periods, are
  accepted.
\<close>

fun inet_pton4 :: "string \<Rightarrow> bool \<Rightarrow> nat \<Rightarrow> uint8_t list \<Rightarrow> uint8_t list option" where
  "inet_pton4 [] saw_digit octets tmp = (if octets < 4 then None else Some tmp)"
| "inet_pton4 (ch # src) saw_digit octets tmp =
     (if isdigit ch then
        (let new = unat (last tmp) * 10 + digit_val ch in
         if saw_digit \<and> last tmp = 0 then None
         else if new > 255 then None
         else if \<not> saw_digit then
           (if octets + 1 > 4 then None
            else inet_pton4 src True (octets + 1) (butlast tmp @ [of_nat new]))
         else inet_pton4 src saw_digit octets (butlast tmp @ [of_nat new]))
      else if ch = CHR ''.'' \<and> saw_digit then
        (if octets = 4 then None else inet_pton4 src False octets (tmp @ [0]))
      else None)"

text \<open>On success the four bytes are copied into the \<^verbatim>\<open>in_addr\<close> as they are.\<close>

definition inet_pton :: "endian \<Rightarrow> string \<Rightarrow> in_addr option" where
  "inet_pton e src =
     (case inet_pton4 src False 0 [0] of
        None \<Rightarrow> None
      | Some tmp \<Rightarrow> Some \<lparr>s_addr = load32 e tmp\<rparr>)"

subsection \<open>Address to text: \<^verbatim>\<open>inet_ntop(AF_INET, ...)\<close>\<close>

definition dotted :: "uint8_t list \<Rightarrow> string" where
  "dotted src = dec (unat (src ! 0)) @ ''.'' @ dec (unat (src ! 1)) @ ''.'' @
                dec (unat (src ! 2)) @ ''.'' @ dec (unat (src ! 3))"

text \<open>
  The text needs its length plus one byte for the terminator; \<open>None\<close> is the
  \<^verbatim>\<open>NULL\<close> returned when the buffer of \<open>len\<close> bytes is too small.
\<close>

definition inet_ntop :: "endian \<Rightarrow> in_addr \<Rightarrow> nat \<Rightarrow> string option" where
  "inet_ntop e addr len =
     (let tmp = dotted (store32 e (s_addr addr))
      in if length tmp \<ge> len then None else Some tmp)"

subsection \<open>\<^verbatim>\<open>atoi\<close>\<close>

text \<open>
  \<^verbatim>\<open>atoi\<close> skips white space, reads an optional sign and then the longest run of
  digits; text without digits there gives 0, and whatever follows the digits is ignored.
  No error is reported. The digits are accumulated in an \<^verbatim>\<open>int\<close>, so a value outside
  its range (undefined in C) wraps here.
\<close>

fun atoi_digits :: "string \<Rightarrow> int32_t \<Rightarrow> int32_t" where
  "atoi_digits [] n = n"
| "atoi_digits (c # cs) n =
     (if isdigit c then atoi_digits cs (n * 10 + of_nat (digit_val c)) else n)"

definition atoi :: "string \<Rightarrow> int32_t" where
  "atoi p =
     (case dropWhile isspace p of
        [] \<Rightarrow> 0
      | c # cs \<Rightarrow>
          if c = CHR ''-'' then - atoi_digits cs 0
          else if c = CHR ''+'' then atoi_digits cs 0
          else atoi_digits (c # cs) 0)"

section \<open>\<^verbatim>\<open>ip_iter.c\<close>: iterate IPv4 addresses, inclusive\<close>

text \<open>
  The loop \<^verbatim>\<open>for (cur = first; cur <= last; cur++)\<close> on \<^verbatim>\<open>uint32_t\<close> values. The first
  argument bounds the number of loop tests observed; \<open>out\<close> is the text written
  to standard output so far.
\<close>

fun iter_loop :: "nat \<Rightarrow> endian \<Rightarrow> uint32_t \<Rightarrow> uint32_t \<Rightarrow> string \<Rightarrow> run" where
  "iter_loop 0 e cur last_addr out = Running out"
| "iter_loop (Suc n) e cur last_addr out =
     (if cur \<le> last_addr then
        (case inet_ntop e \<lparr>s_addr = htonl e cur\<rparr> INET6_ADDRSTRLEN of
           None \<Rightarrow> Exited \<lparr>exit_status = 1, stdout = out, stderr = ''conversion failed!\<newline>''\<rparr>
         | Some buf \<Rightarrow> iter_loop n e (cur + 1) last_addr (out @ buf @ ''\<newline>''))
      else Exited \<lparr>exit_status = 0, stdout = out, stderr = []\<rparr>)"

definition main_iter :: "endian \<Rightarrow> nat \<Rightarrow> string list \<Rightarrow> run" where
  "main_iter e n argv =
     (if length argv \<noteq> 3 then
        Exited \<lparr>exit_status = 1, stdout = [], stderr = ''ip_iter: <start> <end>\<newline>''\<rparr>
      else case inet_pton e (argv ! 1) of
        None \<Rightarrow> Exited \<lparr>exit_status = 1, stdout = [],
                  stderr = ''argv[1] ('' @ argv ! 1 @ '') looks bad\<newline>''\<rparr>
      | Some start_addr \<Rightarrow>
         (case inet_pton e (argv ! 2) of
            None \<Rightarrow> Exited \<lparr>exit_status = 1, stdout = [],
                      stderr = ''argv[2] ('' @ argv ! 2 @ '') looks bad\<newline>''\<rparr>
          | Some end_addr \<Rightarrow>
             (let first = ntohl e (s_addr start_addr);
                  last_addr = ntohl e (s_addr end_addr)
              in if first > last_addr then
                   Exited \<lparr>exit_status = 1, stdout = [],
                     stderr = ''starting address is larger than ending, aborting\<newline>''\<rparr>
                 else iter_loop n e first last_addr [])))"

section \<open>\<^verbatim>\<open>ip_sub.c\<close>: count subnets\<close>

text \<open>\<^verbatim>\<open>1 << (32 - bits)\<close>, computed in \<^verbatim>\<open>int\<close>.\<close>

definition subnet_size :: "int32_t \<Rightarrow> int32_t" where
  "subnet_size bits = push_bit (unat (32 - bits)) 1"

text \<open>
  The loop \<^verbatim>\<open>for (i = 0; i < count; i++, subnet += 1 << (32 - bits))\<close> on \<^verbatim>\<open>int\<close>
  values; the comparison is signed.
\<close>

function sub_loop :: "endian \<Rightarrow> int32_t \<Rightarrow> int32_t \<Rightarrow> int32_t \<Rightarrow> int32_t \<Rightarrow> string \<Rightarrow> proc" where
  "sub_loop e bits count i subnet out =
     (if i <s count then
        (case inet_ntop e \<lparr>s_addr = htonl e subnet\<rparr> INET_ADDRSTRLEN of
           None \<Rightarrow> \<lparr>exit_status = 1, stdout = out, stderr = ''conversion failed!\<newline>''\<rparr>
         | Some buf \<Rightarrow>
            (case inet_ntop e \<lparr>s_addr = htonl e (subnet + 1)\<rparr> INET_ADDRSTRLEN of
               None \<Rightarrow> \<lparr>exit_status = 1, stdout = out, stderr = ''conversion failed!\<newline>''\<rparr>
             | Some first_buf \<Rightarrow>
                (case inet_ntop e \<lparr>s_addr = htonl e (subnet + 2)\<rparr> INET_ADDRSTRLEN of
                   None \<Rightarrow> \<lparr>exit_status = 1, stdout = out, stderr = ''conversion failed!\<newline>''\<rparr>
                 | Some last_buf \<Rightarrow>
                    sub_loop e bits count (i + 1) (subnet + subnet_size bits)
                      (out @ buf @ '' '' @ first_buf @ '' '' @ last_buf @ ''\<newline>''))))
      else \<lparr>exit_status = 0, stdout = out, stderr = []\<rparr>)"
  by pat_completeness auto

text \<open>
  The loop test \<^verbatim>\<open>i < count\<close> keeps \<^verbatim>\<open>i\<close> below the largest \<^verbatim>\<open>int\<close>, so \<^verbatim>\<open>i++\<close>
  never overflows and the loop ends after at most \<^verbatim>\<open>count\<close> rounds.
\<close>

termination sub_loop
proof -
  have succ: "sint (i + 1) = sint i + 1" if "i <s count" for i count :: int32_t
  proof -
    have "sint i < sint count" using that by (simp add: word_sless_alt)
    moreover have "sint count < 2 ^ 31" using sint_lt [of count] by simp
    moreover have "- (2 ^ 31) \<le> sint i" using sint_ge [of i] by simp
    ultimately have "signed_take_bit 31 (sint i + 1) = sint i + 1"
      by (intro signed_take_bit_int_eq_self) auto
    then show ?thesis by (simp add: sint_word_ariths)
  qed
  show ?thesis
    by (relation "measure (\<lambda>(e, bits, count, i, subnet, out). nat (sint count - sint i))")
       (auto simp: succ word_sless_alt)
qed

declare sub_loop.simps [simp del]

definition main_sub :: "endian \<Rightarrow> string list \<Rightarrow> proc" where
  "main_sub e argv =
     (if length argv \<noteq> 4 then
        \<lparr>exit_status = 1, stdout = [], stderr = ''ip_sub: <starting ip> <bits> <count\<newline>>''\<rparr>
      else case inet_pton e (argv ! 1) of
        None \<Rightarrow> \<lparr>exit_status = 1, stdout = [],
                  stderr = ''argv[1] ('' @ argv ! 1 @ '') looks bad\<newline>''\<rparr>
      | Some base \<Rightarrow>
         (let bits = atoi (argv ! 2)
          in if bits <s 8 \<or> 32 \<le>s bits then
               \<lparr>exit_status = 1, stdout = [],
                 stderr = ''bad subnet size, only [8, 32) valid\<newline>''\<rparr>
             else
               (let count = atoi (argv ! 3);
                    subnet = ntohl e (s_addr base)
                in if subnet AND subnet_size bits \<noteq> 0 then
                     \<lparr>exit_status = 1, stdout = [],
                       stderr = ''address doesn't match subnet\<newline>''\<rparr>
                   else sub_loop e bits count 0 subnet [])))"

text \<open>The dotted-decimal text of a host-order address value.\<close>

definition ip_text :: "uint32_t \<Rightarrow> string" where
  "ip_text w = dotted (be_bytes w)"

text \<open>
  The same text from the address as a number: for \<open>v < 2 ^ 32\<close> the four octets of
  \<open>v\<close>, most significant first.
\<close>

definition dotted_nat :: "nat \<Rightarrow> string" where
  "dotted_nat v = dec (v div 2 ^ 24) @ ''.'' @ dec (v div 2 ^ 16 mod 256) @ ''.'' @
                  dec (v div 2 ^ 8 mod 256) @ ''.'' @ dec (v mod 256)"

text \<open>
  The line \<^verbatim>\<open>ip_sub\<close> prints for a subnet value, without its newline: the value, the
  value plus 1 and the value plus 2, separated by single spaces.
\<close>

definition sub_line :: "uint32_t \<Rightarrow> string" where
  "sub_line w = ip_text w @ '' '' @ ip_text (w + 1) @ '' '' @ ip_text (w + 2)"

text \<open>
  The same line from the subnet value as a number, every printed address reduced modulo
  \<open>2 ^ 32\<close>.
\<close>

definition sub_line_mod :: "nat \<Rightarrow> string" where
  "sub_line_mod v = dotted_nat (v mod 2 ^ 32) @ '' '' @ dotted_nat ((v + 1) mod 2 ^ 32) @ '' '' @
                    dotted_nat ((v + 2) mod 2 ^ 32)"

text \<open>
  Standard output as lines: \<open>unlines\<close> is the text in which every line is followed by a
  newline, \<open>lines_of\<close> cuts a text at its newlines.
\<close>

definition unlines :: "string list \<Rightarrow> string" where
  "unlines ls = concat (map (\<lambda>l. l @ ''\<newline>'') ls)"

fun split_lines :: "string \<Rightarrow> string \<Rightarrow> string list" where
  "split_lines [] cur = (if cur = [] then [] else [cur])"
| "split_lines (c # cs) cur =
     (if c = CHR ''\<newline>'' then cur # split_lines cs [] else split_lines cs (cur @ [c]))"

definition lines_of :: "string \<Rightarrow> string list" where
  "lines_of s = split_lines s []"

section \<open>Byte order at the boundary\<close>

lemma be_word_be_bytes: "be_word (be_bytes w) = w"
proof (rule bit_word_eqI)
  fix n assume "n < LENGTH(32)"
  then have n: "n < 32" by simp
  consider "n < 8" | "8 \<le> n" "n < 16" | "16 \<le> n" "n < 24" | "24 \<le> n"
    by linarith
  then show "bit (be_word (be_bytes w)) n = bit w n"
    using n by cases (auto simp: be_word_def be_bytes_def bit_simps)
qed

lemma be_bytes_be_word: "be_bytes (be_word [a, b, c, d]) = [a, b, c, d]"
  unfolding be_word_def be_bytes_def
  apply simp
  apply (intro conjI; rule bit_word_eqI)
     apply (auto simp: bit_simps dest: bit_imp_le_length)
  done

lemma rev_be_bytes: "rev (be_bytes w) = [ucast w, ucast (drop_bit 8 w), ucast (drop_bit 16 w), ucast (drop_bit 24 w)]"
  by (simp add: be_bytes_def)

lemma store32_htonl: "store32 e (htonl e w) = be_bytes w"
proof (cases e)
  case BigEndian
  then show ?thesis
    by (simp add: store32_def htonl_def load32_def be_word_be_bytes)
next
  case LittleEndian
  have "be_bytes (be_word (rev (be_bytes w))) = rev (be_bytes w)"
    by (simp only: rev_be_bytes be_bytes_be_word)
  with LittleEndian show ?thesis
    by (simp add: store32_def htonl_def load32_def)
qed

lemma ntohl_htonl: "ntohl e (htonl e w) = w"
  by (simp add: ntohl_def store32_htonl be_word_be_bytes)

lemma ntohl_load32: "ntohl e (load32 e [a, b, c, d]) = be_word [a, b, c, d]"
proof (cases e)
  case BigEndian
  then show ?thesis
    by (simp add: ntohl_def store32_def load32_def be_bytes_be_word)
next
  case LittleEndian
  have "be_bytes (be_word (rev [a, b, c, d])) = rev [a, b, c, d]"
    using be_bytes_be_word [of d c b a] by simp
  with LittleEndian show ?thesis
    by (simp add: ntohl_def store32_def load32_def)
qed

section \<open>Lines of text\<close>

lemma split_lines_line:
  "CHR ''\<newline>'' \<notin> set l \<Longrightarrow>
   split_lines (l @ CHR ''\<newline>'' # rest) cur = (cur @ l) # split_lines rest []"
  by (induction l arbitrary: cur) auto

lemma lines_of_unlines:
  "(\<And>l. l \<in> set ls \<Longrightarrow> CHR ''\<newline>'' \<notin> set l) \<Longrightarrow> lines_of (unlines ls) = ls"
  unfolding lines_of_def unlines_def
proof (induction ls)
  case Nil
  then show ?case by simp
next
  case (Cons l ls)
  then show ?case
    using split_lines_line [of l "concat (map (\<lambda>l. l @ ''\<newline>'') ls)" "[]"]
    by simp
qed

lemma unlines_Cons: "unlines (x # xs) = x @ ''\<newline>'' @ unlines xs"
  by (simp add: unlines_def)

section \<open>Formatting an address cannot fail\<close>

lemma digit_char_no_newline: "digit_char d \<noteq> CHR ''\<newline>''"
proof -
  have "d mod 10 < length ''0123456789''" by simp
  then have "digit_char d \<in> set ''0123456789''"
    unfolding digit_char_def by (rule nth_mem)
  then show ?thesis by auto
qed

lemma dec_no_newline: "CHR ''\<newline>'' \<notin> set (dec n)"
proof (induction n rule: dec.induct)
  case (1 n)
  then show ?case
    using digit_char_no_newline [of n] digit_char_no_newline [of "n mod 10"]
    by (subst dec.simps) auto
qed

lemma ip_text_no_newline: "CHR ''\<newline>'' \<notin> set (ip_text w)"
  by (simp add: ip_text_def dotted_def dec_no_newline)

lemma sub_line_no_newline: "CHR ''\<newline>'' \<notin> set (sub_line w)"
  by (simp add: sub_line_def ip_text_no_newline)

text \<open>An octet has at most three digits, so the text has at most 15 characters.\<close>

lemma dec_length: "n < 256 \<Longrightarrow> length (dec n) \<le> 3"
  apply (subst dec.simps)
  apply (subst dec.simps)
  apply (subst dec.simps)
  apply auto
  done

lemma unat_byte_less: "unat (b :: uint8_t) < 256"
  using unsigned_less [of b, where 'a = nat] by simp

lemma dotted_length: "length (dotted bs) \<le> 15"
  using dec_length [OF unat_byte_less, of "bs ! 0"] dec_length [OF unat_byte_less, of "bs ! 1"]
    dec_length [OF unat_byte_less, of "bs ! 2"] dec_length [OF unat_byte_less, of "bs ! 3"]
  by (simp add: dotted_def)

lemma inet_ntop_htonl:
  "16 \<le> len \<Longrightarrow> inet_ntop e \<lparr>s_addr = htonl e w\<rparr> len = Some (ip_text w)"
  using dotted_length [of "be_bytes w"]
  by (simp add: inet_ntop_def store32_htonl ip_text_def Let_def)

lemma ip_text_dotted_nat: "ip_text w = dotted_nat (unat w)"
proof -
  have "unat w < 2 ^ 32" using unsigned_less [of w, where 'a = nat] by simp
  then have "unat w div 2 ^ 24 < 256" by simp
  then show ?thesis
    by (simp add: ip_text_def dotted_nat_def dotted_def be_bytes_def unsigned_ucast_eq
        drop_bit_eq_div unat_div take_bit_eq_mod)
qed

section \<open>The loop of \<^verbatim>\<open>ip_iter\<close>\<close>

lemma iter_loop_step:
  "cur \<le> last_addr \<Longrightarrow>
   iter_loop (Suc n) e cur last_addr out =
   iter_loop n e (cur + 1) last_addr (out @ ip_text cur @ ''\<newline>'')"
  by (simp add: inet_ntop_htonl INET6_ADDRSTRLEN_def)

text \<open>
  With \<^verbatim>\<open>last\<close> at the largest 32-bit value the test \<^verbatim>\<open>cur <= last\<close> holds for every
  \<^verbatim>\<open>cur\<close>: after \<open>n\<close> tests the loop is still running and has written \<open>n\<close> lines.
\<close>

lemma iter_loop_max:
  "iter_loop n e cur (- 1) out =
   Running (out @ unlines (map (\<lambda>k. ip_text (cur + of_nat k)) [0..<n]))"
proof (induction n arbitrary: cur out)
  case 0
  then show ?case by (simp add: unlines_def)
next
  case (Suc n)
  have "map (\<lambda>k. ip_text (cur + of_nat k)) [0..<Suc n]
      = ip_text cur # map (\<lambda>k. ip_text (cur + 1 + of_nat k)) [0..<n]"
    by (simp add: upt_conv_Cons map_Suc_upt [symmetric] add.assoc del: upt_Suc)
  then show ?case
    using Suc.IH [of "cur + 1" "out @ ip_text cur @ ''\<newline>''"]
    by (simp add: iter_loop_step unlines_Cons del: iter_loop.simps upt_Suc)
qed

text \<open>
  Below the largest value the loop is right: with \<open>k\<close> addresses from \<^verbatim>\<open>cur\<close> to
  \<^verbatim>\<open>last\<close> left, more than \<open>k\<close> tests end the loop with exactly these \<open>k\<close> lines.
\<close>

lemma iter_loop_range:
  assumes "last_addr \<noteq> - 1" "unat cur + k = Suc (unat last_addr)" "k < n"
  shows "iter_loop n e cur last_addr out =
         Exited \<lparr>exit_status = 0,
                 stdout = out @ unlines (map (\<lambda>j. ip_text (cur + of_nat j)) [0..<k]),
                 stderr = []\<rparr>"
  using assms
proof (induction k arbitrary: cur n out)
  case 0
  then obtain m where n: "n = Suc m" by (cases n) auto
  from 0 have "\<not> cur \<le> last_addr" by (simp add: word_le_nat_alt)
  then show ?case by (simp add: n unlines_def)
next
  case (Suc k)
  then obtain m where n: "n = Suc m" and m: "k < m" by (cases n) auto
  from Suc.prems have le: "cur \<le> last_addr" by (simp add: word_le_nat_alt)
  have "unat last_addr \<noteq> 2 ^ 32 - 1"
  proof
    assume "unat last_addr = 2 ^ 32 - 1"
    then have "word_of_nat (unat last_addr) = (word_of_nat (2 ^ 32 - 1) :: uint32_t)" by simp
    then have "last_addr = - 1" by simp
    with Suc.prems(1) show False by simp
  qed
  moreover have "unat last_addr < 2 ^ 32"
    using unsigned_less [of last_addr, where 'a = nat] by simp
  moreover have "unat cur \<le> unat last_addr" using le by (simp add: word_le_nat_alt)
  ultimately have "unat cur + unat (1 :: uint32_t) < 2 ^ LENGTH(32)" by simp
  then have u: "unat (cur + 1) = unat cur + 1"
    by (simp only: unat_add_lem [THEN iffD1]) simp
  have "map (\<lambda>j. ip_text (cur + of_nat j)) [0..<Suc k]
      = ip_text cur # map (\<lambda>j. ip_text (cur + 1 + of_nat j)) [0..<k]"
    by (simp add: upt_conv_Cons map_Suc_upt [symmetric] add.assoc del: upt_Suc)
  then show ?case
    using Suc.IH [of "cur + 1" m "out @ ip_text cur @ ''\<newline>''"] Suc.prems u m
    by (simp add: n iter_loop_step le unlines_Cons del: iter_loop.simps upt_Suc)
qed

section \<open>The loop of \<^verbatim>\<open>ip_sub\<close>\<close>

lemma sint_succ_sless:
  fixes i count :: int32_t
  assumes "i <s count"
  shows "sint (i + 1) = sint i + 1"
proof -
  have "sint i < sint count" using assms by (simp add: word_sless_alt)
  moreover have "sint count < 2 ^ 31" using sint_lt [of count] by simp
  moreover have "- (2 ^ 31) \<le> sint i" using sint_ge [of i] by simp
  ultimately have "signed_take_bit 31 (sint i + 1) = sint i + 1"
    by (intro signed_take_bit_int_eq_self) auto
  then show ?thesis by (simp add: sint_word_ariths)
qed

lemma sub_loop_step:
  "i <s count \<Longrightarrow>
   sub_loop e bits count i subnet out =
   sub_loop e bits count (i + 1) (subnet + subnet_size bits) (out @ sub_line subnet @ ''\<newline>'')"
  by (subst sub_loop.simps) (simp add: inet_ntop_htonl INET_ADDRSTRLEN_def sub_line_def)

lemma sub_loop_stop:
  "\<not> i <s count \<Longrightarrow>
   sub_loop e bits count i subnet out = \<lparr>exit_status = 0, stdout = out, stderr = []\<rparr>"
  by (subst sub_loop.simps) simp

lemma sub_loop_run:
  "nat (sint count - sint i) = k \<Longrightarrow>
   sub_loop e bits count i subnet out =
   \<lparr>exit_status = 0,
    stdout = out @ unlines (map (\<lambda>j. sub_line (subnet + of_nat j * subnet_size bits)) [0..<k]),
    stderr = []\<rparr>"
proof (induction k arbitrary: i subnet out)
  case 0
  then have "\<not> i <s count" by (simp add: word_sless_alt)
  then show ?case by (simp add: sub_loop_stop unlines_def)
next
  case (Suc k)
  then have lt: "i <s count" by (simp add: word_sless_alt)
  with Suc.prems have "nat (sint count - sint (i + 1)) = k"
    by (simp add: sint_succ_sless)
  note IH = Suc.IH [OF this, of "subnet + subnet_size bits" "out @ sub_line subnet @ ''\<newline>''"]
  have "map (\<lambda>j. sub_line (subnet + of_nat j * subnet_size bits)) [0..<Suc k]
      = sub_line subnet #
        map (\<lambda>j. sub_line (subnet + subnet_size bits + of_nat j * subnet_size bits)) [0..<k]"
    by (simp add: upt_conv_Cons map_Suc_upt [symmetric] algebra_simps del: upt_Suc)
  then show ?case
    using IH by (simp add: sub_loop_step [OF lt] unlines_Cons del: upt_Suc)
qed

text \<open>For \<^verbatim>\<open>bits\<close> in \<^verbatim>\<open>[8, 32)\<close> the shift \<^verbatim>\<open>1 << (32 - bits)\<close> is the power \<open>2 ^ (32 - bits)\<close>.\<close>

lemma bits_range:
  fixes bits :: int32_t
  assumes "\<not> (bits <s 8 \<or> 32 \<le>s bits)"
  shows "8 \<le> unat bits \<and> unat bits < 32"
proof -
  from assms have s: "8 \<le> sint bits" "sint bits < 32"
    by (simp_all add: word_sless_alt word_sle_eq)
  then have "take_bit 32 (sint bits) = sint bits"
    by (intro take_bit_int_eq_self) auto
  moreover have "unat bits = nat (take_bit 32 (sint bits))"
    using unsigned_of_int [where 'b = 32 and 'a = nat, of "sint bits"] by simp
  ultimately have "unat bits = nat (sint bits)" by simp
  with s show ?thesis by linarith
qed

lemma subnet_size_pow:
  fixes bits :: int32_t
  assumes "\<not> (bits <s 8 \<or> 32 \<le>s bits)"
  shows "subnet_size bits = 2 ^ (32 - unat bits)"
proof -
  from bits_range [OF assms] have "unat bits \<le> unat (32 :: int32_t)" by simp
  then have "bits \<le> 32" by (simp only: word_le_nat_alt)
  then have "unat (32 - bits) = unat (32 :: int32_t) - unat bits" by (rule unat_sub)
  then show ?thesis by (simp add: subnet_size_def push_bit_of_1)
qed

section \<open>\<^verbatim>\<open>ip_iter\<close> at the upper boundary\<close>

lemma pton4_max: "inet_pton4 ''255.255.255.255'' False 0 [0] = Some [255, 255, 255, 255]"
  by code_simp

lemma pton4_max1: "inet_pton4 ''255.255.255.254'' False 0 [0] = Some [255, 255, 255, 254]"
  by code_simp

lemma pton_max:
  "inet_pton e ''255.255.255.255'' = Some \<lparr>s_addr = load32 e [255, 255, 255, 255]\<rparr>"
  unfolding inet_pton_def by (simp only: pton4_max option.case)

lemma pton_max1:
  "inet_pton e ''255.255.255.254'' = Some \<lparr>s_addr = load32 e [255, 255, 255, 254]\<rparr>"
  unfolding inet_pton_def by (simp only: pton4_max1 option.case)

lemma be_word_max: "be_word [255, 255, 255, 255] = - 1" "be_word [255, 255, 255, 254] = - 2"
  by (simp_all add: be_word_def)

text \<open>
  C1 (the code does not do this): for valid \<^verbatim>\<open>start <= end\<close> the walker should write
  exactly \<^verbatim>\<open>end - start + 1\<close> lines, the last one being \<^verbatim>\<open>end\<close>. For
  \<^verbatim>\<open>ip_iter 255.255.255.254 255.255.255.255\<close> that would be two lines. The code is
  still in its loop after any number \<open>n\<close> of loop tests and has written \<open>n\<close> lines by
  then: the counter \<^verbatim>\<open>cur\<close> is a \<^verbatim>\<open>uint32_t\<close>, wraps from the largest value to 0 and
  never exceeds \<^verbatim>\<open>last\<close>. After three tests the output already has a third line,
  \<^verbatim>\<open>0.0.0.0\<close>.
\<close>

theorem ip_iter_range_to_max_diverges:
  "main_iter e n [''ip_iter'', ''255.255.255.254'', ''255.255.255.255''] =
     Running (unlines (map (\<lambda>k. ip_text (- 2 + of_nat k)) [0..<n]))
   \<and> main_iter LittleEndian 3 [''ip_iter'', ''255.255.255.254'', ''255.255.255.255''] =
     Running ''255.255.255.254\<newline>255.255.255.255\<newline>0.0.0.0\<newline>''"
proof
  show "main_iter e n [''ip_iter'', ''255.255.255.254'', ''255.255.255.255''] =
     Running (unlines (map (\<lambda>k. ip_text (- 2 + of_nat k)) [0..<n]))"
    by (simp add: main_iter_def pton_max pton_max1 ntohl_load32 be_word_max iter_loop_max)
  show "main_iter LittleEndian 3 [''ip_iter'', ''255.255.255.254'', ''255.255.255.255''] =
     Running ''255.255.255.254\<newline>255.255.255.255\<newline>0.0.0.0\<newline>''"
    by code_simp
qed

text \<open>
  C2 (the code does not do this): \<^verbatim>\<open>ip_iter 255.255.255.255 255.255.255.255\<close> should
  write the single line \<^verbatim>\<open>255.255.255.255\<close> and terminate. The code never leaves the
  loop: after any number \<open>n\<close> of loop tests it is still running and has written \<open>n\<close>
  lines, \<^verbatim>\<open>255.255.255.255\<close>, \<^verbatim>\<open>0.0.0.0\<close>, \<^verbatim>\<open>0.0.0.1\<close> and so on.
\<close>

theorem ip_iter_upper_boundary_diverges:
  "main_iter e n [''ip_iter'', ''255.255.255.255'', ''255.255.255.255''] =
     Running (unlines (map (\<lambda>k. ip_text (- 1 + of_nat k)) [0..<n]))
   \<and> main_iter LittleEndian 2 [''ip_iter'', ''255.255.255.255'', ''255.255.255.255''] =
     Running ''255.255.255.255\<newline>0.0.0.0\<newline>''"
proof
  show "main_iter e n [''ip_iter'', ''255.255.255.255'', ''255.255.255.255''] =
     Running (unlines (map (\<lambda>k. ip_text (- 1 + of_nat k)) [0..<n]))"
    by (simp add: main_iter_def pton_max ntohl_load32 be_word_max iter_loop_max)
  show "main_iter LittleEndian 2 [''ip_iter'', ''255.255.255.255'', ''255.255.255.255''] =
     Running ''255.255.255.255\<newline>0.0.0.0\<newline>''"
    by code_simp
qed

section \<open>\<^verbatim>\<open>ip_sub\<close>: the four ways out of \<^verbatim>\<open>main\<close>\<close>

lemma main_sub_bad_address:
  "inet_pton e a1 = None \<Longrightarrow>
   main_sub e [prog, a1, a2, a3] =
   \<lparr>exit_status = 1, stdout = [], stderr = ''argv[1] ('' @ a1 @ '') looks bad\<newline>''\<rparr>"
  by (simp add: main_sub_def)

lemma main_sub_bad_bits:
  "inet_pton e a1 = Some base \<Longrightarrow> atoi a2 <s 8 \<or> 32 \<le>s atoi a2 \<Longrightarrow>
   main_sub e [prog, a1, a2, a3] =
   \<lparr>exit_status = 1, stdout = [], stderr = ''bad subnet size, only [8, 32) valid\<newline>''\<rparr>"
  by (simp add: main_sub_def)

lemma main_sub_misaligned:
  "inet_pton e a1 = Some base \<Longrightarrow> \<not> (atoi a2 <s 8 \<or> 32 \<le>s atoi a2) \<Longrightarrow>
   ntohl e (s_addr base) AND subnet_size (atoi a2) \<noteq> 0 \<Longrightarrow>
   main_sub e [prog, a1, a2, a3] =
   \<lparr>exit_status = 1, stdout = [], stderr = ''address doesn't match subnet\<newline>''\<rparr>"
  by (simp add: main_sub_def Let_def)

lemma main_sub_valid:
  "inet_pton e a1 = Some base \<Longrightarrow> \<not> (atoi a2 <s 8 \<or> 32 \<le>s atoi a2) \<Longrightarrow>
   ntohl e (s_addr base) AND subnet_size (atoi a2) = 0 \<Longrightarrow>
   main_sub e [prog, a1, a2, a3] =
   \<lparr>exit_status = 0,
    stdout = unlines (map (\<lambda>j. sub_line (ntohl e (s_addr base) + of_nat j * subnet_size (atoi a2)))
                       [0..<nat (sint (atoi a3))]),
    stderr = []\<rparr>"
  using sub_loop_run [of "atoi a3" 0 "nat (sint (atoi a3))" e "atoi a2" "ntohl e (s_addr base)" "[]"]
  by (simp add: main_sub_def Let_def)

lemma sle_not_sless: "(8 \<le>s (b :: int32_t) \<and> b <s 32) = (\<not> (b <s 8 \<or> 32 \<le>s b))"
  by (auto simp: word_sle_eq word_sless_alt)

lemma main_sub_valid_pow:
  assumes "inet_pton e a1 = Some base" "8 \<le>s atoi a2" "atoi a2 <s 32"
    and "ntohl e (s_addr base) AND 2 ^ (32 - unat (atoi a2)) = 0"
  shows "main_sub e [prog, a1, a2, a3] =
         \<lparr>exit_status = 0,
          stdout = unlines (map (\<lambda>i. sub_line (ntohl e (s_addr base)
                                      + of_nat i * 2 ^ (32 - unat (atoi a2))))
                       [0..<nat (sint (atoi a3))]),
          stderr = []\<rparr>"
proof -
  from assms(2,3) have r: "\<not> (atoi a2 <s 8 \<or> 32 \<le>s atoi a2)"
    using sle_not_sless [of "atoi a2"] by blast
  show ?thesis
    using main_sub_valid [OF assms(1) r, of prog a3] assms(4)
    by (simp add: subnet_size_pow [OF r])
qed

lemma lines_of_sub_lines:
  "lines_of (unlines (map (\<lambda>i. sub_line (f i)) xs)) = map (\<lambda>i. sub_line (f i)) xs"
  by (rule lines_of_unlines) (auto simp: sub_line_no_newline)

lemma sub_line_mod_eq:
  "sub_line (b + of_nat i * 2 ^ k) = sub_line_mod (unat b + i * 2 ^ k)"
proof -
  let ?v = "unat b + i * 2 ^ k"
  have a: "b + of_nat i * 2 ^ k = (of_nat ?v :: uint32_t)" by simp
  have e1: "(of_nat ?v :: uint32_t) + 1 = of_nat (?v + 1)" by simp
  have e2: "(of_nat ?v :: uint32_t) + 2 = of_nat (?v + 2)" by simp
  show ?thesis
    by (simp only: sub_line_def sub_line_mod_def ip_text_dotted_nat a e1 e2 unat_of_nat) simp
qed

text \<open>
  C3: for a valid invocation (the base address parses, \<^verbatim>\<open>8 <= bits < 32\<close>, the alignment
  check passes) the program exits with status 0 and writes exactly \<^verbatim>\<open>max(count, 0)\<close>
  lines; line \<open>i\<close> (from 0) is the dotted-decimal text of \<^verbatim>\<open>base + i * 2^(32-bits)\<close>, of
  that value plus 1 and of that value plus 2, separated by single spaces, in this order.
  The values are 32-bit addresses.
\<close>

theorem ip_sub_lines:
  assumes "inet_pton e a1 = Some base" "8 \<le>s atoi a2" "atoi a2 <s 32"
    and "ntohl e (s_addr base) AND 2 ^ (32 - unat (atoi a2)) = 0"
  shows "main_sub e [prog, a1, a2, a3] =
         \<lparr>exit_status = 0,
          stdout = unlines (map (\<lambda>i. sub_line (ntohl e (s_addr base)
                                      + of_nat i * 2 ^ (32 - unat (atoi a2))))
                       [0..<nat (sint (atoi a3))]),
          stderr = []\<rparr>
       \<and> lines_of (stdout (main_sub e [prog, a1, a2, a3])) =
           map (\<lambda>i. sub_line (ntohl e (s_addr base) + of_nat i * 2 ^ (32 - unat (atoi a2))))
             [0..<nat (sint (atoi a3))]
       \<and> length (lines_of (stdout (main_sub e [prog, a1, a2, a3]))) = nat (max (sint (atoi a3)) 0)"
  by (simp only: main_sub_valid_pow [OF assms] lines_of_sub_lines proc.simps length_map length_upt)
     simp

theorem ip_sub_lines_witness:
  "inet_pton LittleEndian ''10.0.0.0'' = Some \<lparr>s_addr = 10\<rparr>
   \<and> 8 \<le>s atoi ''24'' \<and> atoi ''24'' <s 32
   \<and> ntohl LittleEndian (s_addr \<lparr>s_addr = 10\<rparr>) AND 2 ^ (32 - unat (atoi ''24'')) = 0
   \<and> main_sub LittleEndian [''ip_sub'', ''10.0.0.0'', ''24'', ''2''] =
       \<lparr>exit_status = 0,
        stdout = ''10.0.0.0 10.0.0.1 10.0.0.2\<newline>10.0.1.0 10.0.1.1 10.0.1.2\<newline>'',
        stderr = []\<rparr>
   \<and> lines_of (stdout (main_sub LittleEndian [''ip_sub'', ''10.0.0.0'', ''24'', ''2''])) =
       [''10.0.0.0 10.0.0.1 10.0.0.2'', ''10.0.1.0 10.0.1.1 10.0.1.2'']
   \<and> length (lines_of (stdout (main_sub LittleEndian [''ip_sub'', ''10.0.0.0'', ''24'', ''2'']))) = 2"
proof -
  have h1: "inet_pton LittleEndian ''10.0.0.0'' = Some \<lparr>s_addr = 10\<rparr>" by code_simp
  have h2: "8 \<le>s atoi ''24''" by code_simp
  have h3: "atoi ''24'' <s 32" by code_simp
  have h4: "ntohl LittleEndian (s_addr \<lparr>s_addr = 10\<rparr>) AND 2 ^ (32 - unat (atoi ''24'')) = 0"
    by code_simp
  have v: "map (\<lambda>i. sub_line (ntohl LittleEndian (s_addr \<lparr>s_addr = 10\<rparr>)
                 + of_nat i * 2 ^ (32 - unat (atoi ''24'')))) [0..<nat (sint (atoi ''2''))] =
           [''10.0.0.0 10.0.0.1 10.0.0.2'', ''10.0.1.0 10.0.1.1 10.0.1.2'']"
    by code_simp
  have c: "nat (max (sint (atoi ''2'')) 0) = 2" by code_simp
  have u: "unlines [''10.0.0.0 10.0.0.1 10.0.0.2'', ''10.0.1.0 10.0.1.1 10.0.1.2''] =
        ''10.0.0.0 10.0.0.1 10.0.0.2\<newline>10.0.1.0 10.0.1.1 10.0.1.2\<newline>''"
    by code_simp
  from ip_sub_lines [OF h1 h2 h3 h4, of "''ip_sub''" "''2''"] h1 h2 h3 h4
  show ?thesis unfolding v c u by blast
qed

text \<open>
  C4: with a base address that parses and \<^verbatim>\<open>bits\<close> in \<^verbatim>\<open>[8, 32)\<close>, the program fails as
  misaligned (status not 0, nothing on standard output, the message of the alignment check
  on standard error) exactly when the base ANDed with \<^verbatim>\<open>2^(32-bits)\<close> is not zero. That
  is the single bit at position \<^verbatim>\<open>32 - bits\<close>: when this bit is clear the base is accepted,
  whatever its lower bits are.
\<close>

theorem ip_sub_boundary_bit_check:
  assumes "inet_pton e a1 = Some base" "8 \<le>s atoi a2" "atoi a2 <s 32"
  shows "((exit_status (main_sub e [prog, a1, a2, a3]) \<noteq> 0
           \<and> stdout (main_sub e [prog, a1, a2, a3]) = [])
          = (ntohl e (s_addr base) AND 2 ^ (32 - unat (atoi a2)) \<noteq> 0))
       \<and> ((stderr (main_sub e [prog, a1, a2, a3]) = ''address doesn't match subnet\<newline>'')
          = (ntohl e (s_addr base) AND 2 ^ (32 - unat (atoi a2)) \<noteq> 0))
       \<and> ((ntohl e (s_addr base) AND 2 ^ (32 - unat (atoi a2)) \<noteq> 0)
          = bit (ntohl e (s_addr base)) (32 - unat (atoi a2)))
       \<and> (\<not> bit (ntohl e (s_addr base)) (32 - unat (atoi a2))
          \<longrightarrow> exit_status (main_sub e [prog, a1, a2, a3]) = 0)"
proof -
  from assms(2,3) have r: "\<not> (atoi a2 <s 8 \<or> 32 \<le>s atoi a2)"
    using sle_not_sless [of "atoi a2"] by blast
  note sz = subnet_size_pow [OF r]
  let ?b = "ntohl e (s_addr base)"
  let ?k = "32 - unat (atoi a2)"
  have bit: "(?b AND 2 ^ ?k \<noteq> 0) = bit ?b ?k"
    using and_exp_eq_0_iff_not_bit [of ?b ?k] by blast
  show ?thesis
  proof (cases "?b AND 2 ^ ?k = 0")
    case True
    then have "?b AND subnet_size (atoi a2) = 0" by (simp add: sz)
    from main_sub_valid [OF assms(1) r this, of prog a3] True bit
    show ?thesis by simp
  next
    case False
    then have "?b AND subnet_size (atoi a2) \<noteq> 0" by (simp add: sz)
    from main_sub_misaligned [OF assms(1) r this, of prog a3] False bit
    show ?thesis by simp
  qed
qed

theorem ip_sub_boundary_bit_check_witness:
  "inet_pton LittleEndian ''10.0.0.1'' = Some \<lparr>s_addr = 16777226\<rparr>
   \<and> 8 \<le>s atoi ''24'' \<and> atoi ''24'' <s 32
   \<and> \<not> bit (ntohl LittleEndian (s_addr \<lparr>s_addr = 16777226\<rparr>)) (32 - unat (atoi ''24''))
   \<and> exit_status (main_sub LittleEndian [''ip_sub'', ''10.0.0.1'', ''24'', ''1'']) = 0
   \<and> inet_pton LittleEndian ''10.0.1.0'' = Some \<lparr>s_addr = 65546\<rparr>
   \<and> ntohl LittleEndian (s_addr \<lparr>s_addr = 65546\<rparr>) AND 2 ^ (32 - unat (atoi ''24'')) \<noteq> 0
   \<and> exit_status (main_sub LittleEndian [''ip_sub'', ''10.0.1.0'', ''24'', ''1'']) \<noteq> 0
   \<and> stdout (main_sub LittleEndian [''ip_sub'', ''10.0.1.0'', ''24'', ''1'']) = []"
proof -
  have h1: "inet_pton LittleEndian ''10.0.0.1'' = Some \<lparr>s_addr = 16777226\<rparr>" by code_simp
  have h2: "8 \<le>s atoi ''24''" by code_simp
  have h3: "atoi ''24'' <s 32" by code_simp
  have h4: "\<not> bit (ntohl LittleEndian (s_addr \<lparr>s_addr = 16777226\<rparr>)) (32 - unat (atoi ''24''))"
    by code_simp
  have g1: "inet_pton LittleEndian ''10.0.1.0'' = Some \<lparr>s_addr = 65546\<rparr>" by code_simp
  have g4: "ntohl LittleEndian (s_addr \<lparr>s_addr = 65546\<rparr>) AND 2 ^ (32 - unat (atoi ''24'')) \<noteq> 0"
    by code_simp
  from ip_sub_boundary_bit_check [OF h1 h2 h3, of "''ip_sub''" "''1''"]
       ip_sub_boundary_bit_check [OF g1 h2 h3, of "''ip_sub''" "''1''"]
       h1 h2 h3 h4 g1 g4
  show ?thesis by blast
qed

text \<open>
  C5, as the spec states it, does not hold: \<^verbatim>\<open>ip_sub 10.0.0.1 24 1\<close> is not rejected.
\<close>

theorem ip_sub_10_0_0_1_not_rejected:
  "\<not> (exit_status (main_sub LittleEndian [''ip_sub'', ''10.0.0.1'', ''24'', ''1'']) \<noteq> 0
      \<and> stdout (main_sub LittleEndian [''ip_sub'', ''10.0.0.1'', ''24'', ''1'']) = [])"
  by code_simp

text \<open>
  C5, amended: \<^verbatim>\<open>ip_sub 10.0.0.1 24 1\<close> succeeds. The check looks at bit 8 of the base
  only, which is clear in \<^verbatim>\<open>10.0.0.1\<close>; the program writes the line
  \<^verbatim>\<open>10.0.0.1 10.0.0.2 10.0.0.3\<close> and exits with status 0.
\<close>

theorem ip_sub_10_0_0_1_accepted:
  "main_sub e [''ip_sub'', ''10.0.0.1'', ''24'', ''1''] =
   \<lparr>exit_status = 0, stdout = ''10.0.0.1 10.0.0.2 10.0.0.3\<newline>'', stderr = []\<rparr>"
proof (cases e)
  case LittleEndian
  show ?thesis unfolding LittleEndian by code_simp
next
  case BigEndian
  show ?thesis unfolding BigEndian by code_simp
qed

text \<open>
  C10: a \<^verbatim>\<open>bits\<close> argument that is not an integer is not reported. \<^verbatim>\<open>atoi\<close> reads the
  leading digits, so \<^verbatim>\<open>24xyz\<close> counts as 24: \<^verbatim>\<open>ip_sub 10.0.0.0 24xyz 1\<close> writes one
  subnet line and exits with status 0, exactly as \<^verbatim>\<open>ip_sub 10.0.0.0 24 1\<close> does.
\<close>

theorem ip_sub_bits_atoi_prefix:
  "atoi ''24xyz'' = 24
   \<and> main_sub e [''ip_sub'', ''10.0.0.0'', ''24xyz'', ''1''] =
     \<lparr>exit_status = 0, stdout = ''10.0.0.0 10.0.0.1 10.0.0.2\<newline>'', stderr = []\<rparr>
   \<and> main_sub e [''ip_sub'', ''10.0.0.0'', ''24xyz'', ''1''] =
     main_sub e [''ip_sub'', ''10.0.0.0'', ''24'', ''1'']"
proof (cases e)
  case LittleEndian
  show ?thesis unfolding LittleEndian by code_simp
next
  case BigEndian
  show ?thesis unfolding BigEndian by code_simp
qed

text \<open>
  C6: there is no overflow guard. For a valid invocation in which
  \<^verbatim>\<open>base + (count-1) * 2^(32-bits)\<close> exceeds \<^verbatim>\<open>2^32 - 1\<close> the enumeration goes on: the
  program exits with status 0 after \<^verbatim>\<open>count\<close> lines, and every address it prints is the
  value reduced modulo \<^verbatim>\<open>2^32\<close>; for the last subnet this is a smaller number than
  the unreduced one.
\<close>

theorem ip_sub_wraps:
  assumes "inet_pton e a1 = Some base" "8 \<le>s atoi a2" "atoi a2 <s 32"
    and "ntohl e (s_addr base) AND 2 ^ (32 - unat (atoi a2)) = 0"
    and "2 ^ 32 - 1 < unat (ntohl e (s_addr base))
                        + (nat (sint (atoi a3)) - 1) * 2 ^ (32 - unat (atoi a2))"
  shows "main_sub e [prog, a1, a2, a3] =
         \<lparr>exit_status = 0,
          stdout = unlines (map (\<lambda>i. sub_line_mod (unat (ntohl e (s_addr base))
                                      + i * 2 ^ (32 - unat (atoi a2))))
                       [0..<nat (sint (atoi a3))]),
          stderr = []\<rparr>
       \<and> length (lines_of (stdout (main_sub e [prog, a1, a2, a3]))) = nat (sint (atoi a3))
       \<and> (unat (ntohl e (s_addr base)) + (nat (sint (atoi a3)) - 1) * 2 ^ (32 - unat (atoi a2)))
            mod 2 ^ 32
          < unat (ntohl e (s_addr base)) + (nat (sint (atoi a3)) - 1) * 2 ^ (32 - unat (atoi a2))"
proof -
  let ?b = "ntohl e (s_addr base)" and ?k = "32 - unat (atoi a2)" and ?n = "nat (sint (atoi a3))"
  have m: "map (\<lambda>i. sub_line (?b + of_nat i * 2 ^ ?k)) [0..<?n]
      = map (\<lambda>i. sub_line_mod (unat ?b + i * 2 ^ ?k)) [0..<?n]"
    by (simp add: sub_line_mod_eq)
  have r: "main_sub e [prog, a1, a2, a3] =
        \<lparr>exit_status = 0,
         stdout = unlines (map (\<lambda>i. sub_line (?b + of_nat i * 2 ^ ?k)) [0..<?n]),
         stderr = []\<rparr>"
    by (rule main_sub_valid_pow [OF assms(1-4)])
  have l: "length (lines_of (stdout (main_sub e [prog, a1, a2, a3]))) = ?n"
    by (simp only: r lines_of_sub_lines proc.simps length_map length_upt)
  have "(unat ?b + (?n - 1) * 2 ^ ?k) mod 2 ^ 32 < (2 ^ 32 :: nat)"
    by simp
  with assms(5) have w: "(unat ?b + (?n - 1) * 2 ^ ?k) mod 2 ^ 32 < unat ?b + (?n - 1) * 2 ^ ?k"
    by linarith
  from r l w show ?thesis unfolding m by blast
qed

theorem ip_sub_wraps_witness:
  "inet_pton LittleEndian ''255.255.254.0'' = Some \<lparr>s_addr = 16711679\<rparr>
   \<and> 8 \<le>s atoi ''24'' \<and> atoi ''24'' <s 32
   \<and> ntohl LittleEndian (s_addr \<lparr>s_addr = 16711679\<rparr>) AND 2 ^ (32 - unat (atoi ''24'')) = 0
   \<and> 2 ^ 32 - 1 < unat (ntohl LittleEndian (s_addr \<lparr>s_addr = 16711679\<rparr>))
                        + (nat (sint (atoi ''3'')) - 1) * 2 ^ (32 - unat (atoi ''24''))
   \<and> main_sub LittleEndian [''ip_sub'', ''255.255.254.0'', ''24'', ''3''] =
       \<lparr>exit_status = 0,
        stdout = ''255.255.254.0 255.255.254.1 255.255.254.2\<newline>255.255.255.0 255.255.255.1 255.255.255.2\<newline>0.0.0.0 0.0.0.1 0.0.0.2\<newline>'',
        stderr = []\<rparr>"
proof -
  have h1: "inet_pton LittleEndian ''255.255.254.0'' = Some \<lparr>s_addr = 16711679\<rparr>"
    by code_simp
  have h2: "8 \<le>s atoi ''24''" by code_simp
  have h3: "atoi ''24'' <s 32" by code_simp
  have h4: "ntohl LittleEndian (s_addr \<lparr>s_addr = 16711679\<rparr>)
              AND 2 ^ (32 - unat (atoi ''24'')) = 0"
    by code_simp
  have b: "ntohl LittleEndian (s_addr \<lparr>s_addr = 16711679\<rparr>) = 4294966784" by code_simp
  have c3: "atoi ''3'' = 3" by code_simp
  have c24: "atoi ''24'' = 24" by code_simp
  have h5: "2 ^ 32 - 1 < unat (ntohl LittleEndian (s_addr \<lparr>s_addr = 16711679\<rparr>))
                        + (nat (sint (atoi ''3'')) - 1) * 2 ^ (32 - unat (atoi ''24''))"
    unfolding b c3 c24 by simp
  have v: "unlines (map (\<lambda>i. sub_line (ntohl LittleEndian (s_addr \<lparr>s_addr = 16711679\<rparr>)
                                 + of_nat i * 2 ^ (32 - unat (atoi ''24''))))
             [0..<nat (sint (atoi ''3''))]) =
           ''255.255.254.0 255.255.254.1 255.255.254.2\<newline>255.255.255.0 255.255.255.1 255.255.255.2\<newline>0.0.0.0 0.0.0.1 0.0.0.2\<newline>''"
    by code_simp
  have r: "main_sub LittleEndian [''ip_sub'', ''255.255.254.0'', ''24'', ''3''] =
       \<lparr>exit_status = 0,
        stdout = ''255.255.254.0 255.255.254.1 255.255.254.2\<newline>255.255.255.0 255.255.255.1 255.255.255.2\<newline>0.0.0.0 0.0.0.1 0.0.0.2\<newline>'',
        stderr = []\<rparr>"
    using ip_sub_wraps [OF h1 h2 h3 h4 h5, of "''ip_sub''", THEN conjunct1]
    by (simp only: sub_line_mod_eq [symmetric] v)
  show ?thesis by (intro conjI h1 h2 h3 h4 h5 r)
qed

section \<open>\<^verbatim>\<open>ip_iter\<close>: the range check\<close>

text \<open>The loop of \<^verbatim>\<open>ip_iter\<close> can only be left with status 0.\<close>

lemma iter_loop_exited:
  "iter_loop n e cur last_addr out = Exited p \<Longrightarrow> exit_status p = 0 \<and> stderr p = []"
proof (induction n arbitrary: cur out)
  case 0
  then show ?case by simp
next
  case (Suc n)
  show ?case
  proof (cases "cur \<le> last_addr")
    case True
    with Suc.prems have "iter_loop n e (cur + 1) last_addr (out @ ip_text cur @ ''\<newline>'') = Exited p"
      by (simp only: iter_loop_step)
    then show ?thesis by (rule Suc.IH)
  next
    case False
    with Suc.prems show ?thesis by auto
  qed
qed

lemma main_iter_bad_range:
  "inet_pton e a1 = Some start_addr \<Longrightarrow> inet_pton e a2 = Some end_addr \<Longrightarrow>
   ntohl e (s_addr end_addr) < ntohl e (s_addr start_addr) \<Longrightarrow>
   main_iter e n [prog, a1, a2] =
   Exited \<lparr>exit_status = 1, stdout = [],
     stderr = ''starting address is larger than ending, aborting\<newline>''\<rparr>"
  by (simp add: main_iter_def Let_def)

lemma main_iter_loop:
  "inet_pton e a1 = Some start_addr \<Longrightarrow> inet_pton e a2 = Some end_addr \<Longrightarrow>
   \<not> ntohl e (s_addr end_addr) < ntohl e (s_addr start_addr) \<Longrightarrow>
   main_iter e n [prog, a1, a2] =
   iter_loop n e (ntohl e (s_addr start_addr)) (ntohl e (s_addr end_addr)) []"
  by (simp add: main_iter_def Let_def)

text \<open>
  C7: with two arguments that both parse, the walker exits with a status other than 0
  exactly when the value of \<^verbatim>\<open>start\<close> is strictly greater than the value of \<^verbatim>\<open>end\<close>;
  it then exits with status 1 and has written nothing to standard output. This holds
  however long the run is observed.
\<close>

theorem ip_iter_invalid_range:
  assumes "inet_pton e a1 = Some start_addr" "inet_pton e a2 = Some end_addr"
  shows "((\<exists>p. main_iter e n [prog, a1, a2] = Exited p \<and> exit_status p \<noteq> 0)
          = (ntohl e (s_addr end_addr) < ntohl e (s_addr start_addr)))
       \<and> (ntohl e (s_addr end_addr) < ntohl e (s_addr start_addr) \<longrightarrow>
            main_iter e n [prog, a1, a2] =
            Exited \<lparr>exit_status = 1, stdout = [],
              stderr = ''starting address is larger than ending, aborting\<newline>''\<rparr>)"
proof (cases "ntohl e (s_addr end_addr) < ntohl e (s_addr start_addr)")
  case True
  from main_iter_bad_range [OF assms True, of n prog] True show ?thesis by simp
next
  case False
  have "\<not> (\<exists>p. main_iter e n [prog, a1, a2] = Exited p \<and> exit_status p \<noteq> 0)"
    using iter_loop_exited [of n e "ntohl e (s_addr start_addr)" "ntohl e (s_addr end_addr)" "[]"]
    by (auto simp: main_iter_loop [OF assms False])
  with False show ?thesis by simp
qed

theorem ip_iter_invalid_range_witness:
  "inet_pton LittleEndian ''10.0.0.5'' = Some \<lparr>s_addr = 83886090\<rparr>
   \<and> inet_pton LittleEndian ''10.0.0.3'' = Some \<lparr>s_addr = 50331658\<rparr>
   \<and> ntohl LittleEndian (s_addr \<lparr>s_addr = 50331658\<rparr>)
       < ntohl LittleEndian (s_addr \<lparr>s_addr = 83886090\<rparr>)
   \<and> main_iter LittleEndian 4 [''ip_iter'', ''10.0.0.5'', ''10.0.0.3''] =
       Exited \<lparr>exit_status = 1, stdout = [],
         stderr = ''starting address is larger than ending, aborting\<newline>''\<rparr>
   \<and> \<not> (\<exists>p. main_iter LittleEndian 4 [''ip_iter'', ''10.0.0.3'', ''10.0.0.5''] = Exited p
            \<and> exit_status p \<noteq> 0)"
proof -
  have h1: "inet_pton LittleEndian ''10.0.0.5'' = Some \<lparr>s_addr = 83886090\<rparr>" by code_simp
  have h2: "inet_pton LittleEndian ''10.0.0.3'' = Some \<lparr>s_addr = 50331658\<rparr>" by code_simp
  have h3: "ntohl LittleEndian (s_addr \<lparr>s_addr = 50331658\<rparr>)
       < ntohl LittleEndian (s_addr \<lparr>s_addr = 83886090\<rparr>)" by code_simp
  have h4: "\<not> ntohl LittleEndian (s_addr \<lparr>s_addr = 83886090\<rparr>)
       < ntohl LittleEndian (s_addr \<lparr>s_addr = 50331658\<rparr>)" by code_simp
  note t1 = ip_iter_invalid_range [OF h1 h2, of 4 "''ip_iter''"]
  note t2 = ip_iter_invalid_range [OF h2 h1, of 4 "''ip_iter''"]
  have r1: "main_iter LittleEndian 4 [''ip_iter'', ''10.0.0.5'', ''10.0.0.3''] =
       Exited \<lparr>exit_status = 1, stdout = [],
         stderr = ''starting address is larger than ending, aborting\<newline>''\<rparr>"
    using t1 [THEN conjunct2] h3 by (rule mp)
  have r2: "\<not> (\<exists>p. main_iter LittleEndian 4 [''ip_iter'', ''10.0.0.3'', ''10.0.0.5''] = Exited p
            \<and> exit_status p \<noteq> 0)"
    using t2 [THEN conjunct1] h4 by (rule ssubst)
  show ?thesis by (intro conjI h1 h2 h3 r1 r2)
qed

section \<open>\<^verbatim>\<open>ip_sub\<close>: arguments that do not parse\<close>

text \<open>
  C8, as the spec states it, does not hold: with the count argument \<^verbatim>\<open>abc\<close>, which is
  not an integer, \<^verbatim>\<open>ip_sub 10.0.0.0 24 abc\<close> does not exit with status 1.
\<close>

theorem ip_sub_count_not_parseable:
  "exit_status (main_sub LittleEndian [''ip_sub'', ''10.0.0.0'', ''24'', ''abc'']) \<noteq> 1"
  by code_simp

text \<open>
  C8, amended: with the right number of arguments, a base address that does not parse
  makes the program exit with status 1 without any subnet line. The \<^verbatim>\<open>bits\<close> and
  \<^verbatim>\<open>count\<close> arguments are read with \<^verbatim>\<open>atoi\<close>, which reports no failure: once the base
  parses, \<^verbatim>\<open>bits\<close> is in \<^verbatim>\<open>[8, 32)\<close> and the boundary bit is clear, the program exits
  with status 0 whatever the text of the count argument is, after as many lines as
  \<^verbatim>\<open>atoi\<close> reads from it.
\<close>

theorem ip_sub_parse_failure:
  "(inet_pton e a1 = None \<longrightarrow>
      exit_status (main_sub e [prog, a1, a2, a3]) = 1 \<and> stdout (main_sub e [prog, a1, a2, a3]) = [])
   \<and> (inet_pton e a1 = Some base \<and> 8 \<le>s atoi a2 \<and> atoi a2 <s 32
       \<and> ntohl e (s_addr base) AND 2 ^ (32 - unat (atoi a2)) = 0 \<longrightarrow>
      exit_status (main_sub e [prog, a1, a2, a3]) = 0
      \<and> length (lines_of (stdout (main_sub e [prog, a1, a2, a3]))) = nat (sint (atoi a3)))"
proof (rule conjI; rule impI)
  assume "inet_pton e a1 = None"
  then show "exit_status (main_sub e [prog, a1, a2, a3]) = 1
      \<and> stdout (main_sub e [prog, a1, a2, a3]) = []"
    by (simp add: main_sub_bad_address)
next
  assume h: "inet_pton e a1 = Some base \<and> 8 \<le>s atoi a2 \<and> atoi a2 <s 32
       \<and> ntohl e (s_addr base) AND 2 ^ (32 - unat (atoi a2)) = 0"
  then have r: "main_sub e [prog, a1, a2, a3] =
         \<lparr>exit_status = 0,
          stdout = unlines (map (\<lambda>i. sub_line (ntohl e (s_addr base)
                                      + of_nat i * 2 ^ (32 - unat (atoi a2))))
                       [0..<nat (sint (atoi a3))]),
          stderr = []\<rparr>"
    by (intro main_sub_valid_pow) simp_all
  have x: "exit_status (main_sub e [prog, a1, a2, a3]) = 0" by (simp only: r proc.simps)
  have l: "length (lines_of (stdout (main_sub e [prog, a1, a2, a3]))) = nat (sint (atoi a3))"
    by (simp only: r lines_of_sub_lines proc.simps length_map length_upt minus_nat.diff_0)
  from x l show "exit_status (main_sub e [prog, a1, a2, a3]) = 0
      \<and> length (lines_of (stdout (main_sub e [prog, a1, a2, a3]))) = nat (sint (atoi a3))"
    by (rule conjI)
qed

theorem ip_sub_parse_failure_witness:
  "inet_pton LittleEndian ''10.0.0'' = None
   \<and> exit_status (main_sub LittleEndian [''ip_sub'', ''10.0.0'', ''24'', ''1'']) = 1
   \<and> stdout (main_sub LittleEndian [''ip_sub'', ''10.0.0'', ''24'', ''1'']) = []
   \<and> inet_pton LittleEndian ''10.0.0.0'' = Some \<lparr>s_addr = 10\<rparr>
   \<and> 8 \<le>s atoi ''24'' \<and> atoi ''24'' <s 32
   \<and> ntohl LittleEndian (s_addr \<lparr>s_addr = 10\<rparr>) AND 2 ^ (32 - unat (atoi ''24'')) = 0
   \<and> exit_status (main_sub LittleEndian [''ip_sub'', ''10.0.0.0'', ''24'', ''2x'']) = 0
   \<and> length (lines_of (stdout (main_sub LittleEndian [''ip_sub'', ''10.0.0.0'', ''24'', ''2x''])))
       = 2"
proof -
  have g: "inet_pton LittleEndian ''10.0.0'' = None" by code_simp
  have h1: "inet_pton LittleEndian ''10.0.0.0'' = Some \<lparr>s_addr = 10\<rparr>" by code_simp
  have h2: "8 \<le>s atoi ''24''" by code_simp
  have h3: "atoi ''24'' <s 32" by code_simp
  have h4: "ntohl LittleEndian (s_addr \<lparr>s_addr = 10\<rparr>) AND 2 ^ (32 - unat (atoi ''24'')) = 0"
    by code_simp
  have c: "nat (sint (atoi ''2x'')) = 2" by code_simp
  note t1 = ip_sub_parse_failure [of LittleEndian "''10.0.0''" "''ip_sub''" "''24''" "''1''",
      THEN conjunct1, THEN mp, OF g]
  note t2 = ip_sub_parse_failure [of LittleEndian "''10.0.0.0''" "''ip_sub''" "''24''" "''2x''"
      "\<lparr>s_addr = 10\<rparr>", THEN conjunct2, THEN mp, OF conjI [OF h1 conjI [OF h2 conjI [OF h3 h4]]]]
  show ?thesis
    by (intro conjI g h1 h2 h3 h4 t1 [THEN conjunct1] t1 [THEN conjunct2] t2 [THEN conjunct1]
        t2 [THEN conjunct2, unfolded c])
qed

section \<open>No failure once the arguments are validated\<close>

text \<open>
  Every run of \<^verbatim>\<open>ip_sub\<close>, and every run of \<^verbatim>\<open>ip_iter\<close> that has exited, ended either
  with status 0 and nothing on standard error, or with status 1, nothing on standard
  output and a message other than the one of the conversion branches.
\<close>

lemma main_sub_outcome:
  "(exit_status (main_sub e argv) = 0 \<and> stderr (main_sub e argv) = [])
   \<or> (exit_status (main_sub e argv) = 1 \<and> stdout (main_sub e argv) = []
       \<and> stderr (main_sub e argv) \<noteq> ''conversion failed!\<newline>'')"
proof -
  have "exit_status (sub_loop e bits count 0 subnet []) = 0
      \<and> stderr (sub_loop e bits count 0 subnet []) = []" for bits count subnet
    using sub_loop_run [of count 0 "nat (sint count)" e bits subnet "[]"] by simp
  then show ?thesis
    by (simp add: main_sub_def Let_def split: option.split)
qed

lemma main_iter_outcome:
  assumes "main_iter e n argv = Exited p"
  shows "(exit_status p = 0 \<and> stderr p = [])
   \<or> (exit_status p = 1 \<and> stdout p = [] \<and> stderr p \<noteq> ''conversion failed!\<newline>'')"
proof -
  have "exit_status p = 0 \<and> stderr p = []" if "iter_loop n e first last_addr [] = Exited p"
    for first last_addr
    using that by (rule iter_loop_exited)
  with assms show ?thesis
    by (auto simp: main_iter_def Let_def split: option.splits if_splits)
qed

lemma main_iter_validated:
  assumes "length argv = 3" "inet_pton e (argv ! 1) = Some start_addr"
    "inet_pton e (argv ! 2) = Some end_addr"
    "ntohl e (s_addr start_addr) \<le> ntohl e (s_addr end_addr)"
    "main_iter e n argv = Exited p"
  shows "exit_status p = 0"
proof -
  from assms(1-4) have "main_iter e n argv =
      iter_loop n e (ntohl e (s_addr start_addr)) (ntohl e (s_addr end_addr)) []"
    by (simp add: main_iter_def Let_def not_less [symmetric])
  with assms(5) show ?thesis using iter_loop_exited by metis
qed

lemma main_sub_validated:
  assumes "length argv = 4" "inet_pton e (argv ! 1) = Some base"
    "8 \<le>s atoi (argv ! 2)" "atoi (argv ! 2) <s 32"
    "ntohl e (s_addr base) AND subnet_size (atoi (argv ! 2)) = 0"
  shows "exit_status (main_sub e argv) = 0"
proof -
  from assms(3,4) have r: "\<not> (atoi (argv ! 2) <s 8 \<or> 32 \<le>s atoi (argv ! 2))"
    using sle_not_sless [of "atoi (argv ! 2)"] by blast
  have "exit_status (sub_loop e bits count 0 subnet []) = 0" for bits count subnet
    using sub_loop_run [of count 0 "nat (sint count)" e bits subnet "[]"] by simp
  with assms(1,2,5) r show ?thesis
    by (simp add: main_sub_def Let_def)
qed

text \<open>
  C9: in both programs the \<^verbatim>\<open>conversion failed!\<close> branches inside the loop cannot be
  reached. Formatting a 32-bit value never fails, neither into the buffer of
  \<^verbatim>\<open>INET_ADDRSTRLEN\<close> bytes of \<^verbatim>\<open>ip_sub\<close> nor into the one of \<^verbatim>\<open>INET6_ADDRSTRLEN\<close> bytes
  of \<^verbatim>\<open>ip_iter\<close>; no run ends with that message; a run that ends with a status other
  than 0 has written nothing to standard output; and a run whose arguments passed every
  check exits, when it exits, with status 0.
\<close>

theorem no_failure_after_validation:
  "inet_ntop e \<lparr>s_addr = htonl e w\<rparr> INET_ADDRSTRLEN = Some (ip_text w)
   \<and> inet_ntop e \<lparr>s_addr = htonl e w\<rparr> INET6_ADDRSTRLEN = Some (ip_text w)
   \<and> stderr (main_sub e argv) \<noteq> ''conversion failed!\<newline>''
   \<and> (exit_status (main_sub e argv) \<noteq> 0 \<longrightarrow> stdout (main_sub e argv) = [])
   \<and> (main_iter e n argv' = Exited p \<longrightarrow>
        stderr p \<noteq> ''conversion failed!\<newline>'' \<and> (exit_status p \<noteq> 0 \<longrightarrow> stdout p = []))
   \<and> (length argv' = 3 \<and> inet_pton e (argv' ! 1) = Some start_addr
        \<and> inet_pton e (argv' ! 2) = Some end_addr
        \<and> ntohl e (s_addr start_addr) \<le> ntohl e (s_addr end_addr)
        \<and> main_iter e n argv' = Exited p \<longrightarrow> exit_status p = 0)
   \<and> (length argv = 4 \<and> inet_pton e (argv ! 1) = Some base
        \<and> 8 \<le>s atoi (argv ! 2) \<and> atoi (argv ! 2) <s 32
        \<and> ntohl e (s_addr base) AND subnet_size (atoi (argv ! 2)) = 0 \<longrightarrow>
        exit_status (main_sub e argv) = 0)"
proof (intro conjI)
  show "inet_ntop e \<lparr>s_addr = htonl e w\<rparr> INET_ADDRSTRLEN = Some (ip_text w)"
    by (simp add: inet_ntop_htonl INET_ADDRSTRLEN_def)
  show "inet_ntop e \<lparr>s_addr = htonl e w\<rparr> INET6_ADDRSTRLEN = Some (ip_text w)"
    by (simp add: inet_ntop_htonl INET6_ADDRSTRLEN_def)
  show "stderr (main_sub e argv) \<noteq> ''conversion failed!\<newline>''"
    using main_sub_outcome [of e argv] by auto
  show "exit_status (main_sub e argv) \<noteq> 0 \<longrightarrow> stdout (main_sub e argv) = []"
    using main_sub_outcome [of e argv] by auto
  show "main_iter e n argv' = Exited p \<longrightarrow>
        stderr p \<noteq> ''conversion failed!\<newline>'' \<and> (exit_status p \<noteq> 0 \<longrightarrow> stdout p = [])"
    using main_iter_outcome [of e n argv' p] by auto
  show "length argv' = 3 \<and> inet_pton e (argv' ! 1) = Some start_addr
        \<and> inet_pton e (argv' ! 2) = Some end_addr
        \<and> ntohl e (s_addr start_addr) \<le> ntohl e (s_addr end_addr)
        \<and> main_iter e n argv' = Exited p \<longrightarrow> exit_status p = 0"
    using main_iter_validated [of argv' e start_addr end_addr n p] by blast
  show "length argv = 4 \<and> inet_pton e (argv ! 1) = Some base
        \<and> 8 \<le>s atoi (argv ! 2) \<and> atoi (argv ! 2) <s 32
        \<and> ntohl e (s_addr base) AND subnet_size (atoi (argv ! 2)) = 0 \<longrightarrow>
        exit_status (main_sub e argv) = 0"
    using main_sub_validated [of argv e base] by blast
qed

theorem no_failure_after_validation_witness:
  "inet_ntop LittleEndian \<lparr>s_addr = htonl LittleEndian (- 1)\<rparr> INET_ADDRSTRLEN
     = Some ''255.255.255.255''
   \<and> length [''ip_iter'', ''10.0.0.3'', ''10.0.0.5''] = 3
   \<and> inet_pton LittleEndian ([''ip_iter'', ''10.0.0.3'', ''10.0.0.5''] ! 1)
       = Some \<lparr>s_addr = 50331658\<rparr>
   \<and> inet_pton LittleEndian ([''ip_iter'', ''10.0.0.3'', ''10.0.0.5''] ! 2)
       = Some \<lparr>s_addr = 83886090\<rparr>
   \<and> ntohl LittleEndian (s_addr \<lparr>s_addr = 50331658\<rparr>)
       \<le> ntohl LittleEndian (s_addr \<lparr>s_addr = 83886090\<rparr>)
   \<and> main_iter LittleEndian 4 [''ip_iter'', ''10.0.0.3'', ''10.0.0.5'']
       = Exited \<lparr>exit_status = 0, stdout = ''10.0.0.3\<newline>10.0.0.4\<newline>10.0.0.5\<newline>'', stderr = []\<rparr>
   \<and> exit_status \<lparr>exit_status = 0, stdout = ''10.0.0.3\<newline>10.0.0.4\<newline>10.0.0.5\<newline>'', stderr = []\<rparr> = 0
   \<and> length [''ip_sub'', ''10.0.0.0'', ''24'', ''2''] = 4
   \<and> inet_pton LittleEndian ([''ip_sub'', ''10.0.0.0'', ''24'', ''2''] ! 1) = Some \<lparr>s_addr = 10\<rparr>
   \<and> 8 \<le>s atoi ([''ip_sub'', ''10.0.0.0'', ''24'', ''2''] ! 2)
   \<and> atoi ([''ip_sub'', ''10.0.0.0'', ''24'', ''2''] ! 2) <s 32
   \<and> ntohl LittleEndian (s_addr \<lparr>s_addr = 10\<rparr>)
         AND subnet_size (atoi ([''ip_sub'', ''10.0.0.0'', ''24'', ''2''] ! 2)) = 0
   \<and> exit_status (main_sub LittleEndian [''ip_sub'', ''10.0.0.0'', ''24'', ''2'']) = 0
   \<and> exit_status (main_sub LittleEndian [''ip_sub'', ''10.0.1.0'', ''24'', ''1'']) \<noteq> 0
   \<and> stdout (main_sub LittleEndian [''ip_sub'', ''10.0.1.0'', ''24'', ''1'']) = []
   \<and> main_iter LittleEndian 4 [''ip_iter'', ''10.0.0.5'', ''10.0.0.3'']
       = Exited \<lparr>exit_status = 1, stdout = [],
           stderr = ''starting address is larger than ending, aborting\<newline>''\<rparr>
   \<and> stderr \<lparr>exit_status = 1, stdout = [],
           stderr = ''starting address is larger than ending, aborting\<newline>''\<rparr>
       \<noteq> ''conversion failed!\<newline>''"
proof -
  let ?iterA = "[''ip_iter'', ''10.0.0.3'', ''10.0.0.5'']"
  let ?pA = "\<lparr>exit_status = 0, stdout = ''10.0.0.3\<newline>10.0.0.4\<newline>10.0.0.5\<newline>'', stderr = []\<rparr>"
  let ?subA = "[''ip_sub'', ''10.0.0.0'', ''24'', ''2'']"
  let ?iterB = "[''ip_iter'', ''10.0.0.5'', ''10.0.0.3'']"
  let ?pB = "\<lparr>exit_status = 1, stdout = [],
           stderr = ''starting address is larger than ending, aborting\<newline>''\<rparr>"
  let ?subB = "[''ip_sub'', ''10.0.1.0'', ''24'', ''1'']"
  have t: "ip_text (- 1) = ''255.255.255.255''" by code_simp
  have a1: "length ?iterA = 3" by simp
  have a2: "inet_pton LittleEndian (?iterA ! 1) = Some \<lparr>s_addr = 50331658\<rparr>" by code_simp
  have a3: "inet_pton LittleEndian (?iterA ! 2) = Some \<lparr>s_addr = 83886090\<rparr>" by code_simp
  have a4: "ntohl LittleEndian (s_addr \<lparr>s_addr = 50331658\<rparr>)
       \<le> ntohl LittleEndian (s_addr \<lparr>s_addr = 83886090\<rparr>)" by code_simp
  have a5: "main_iter LittleEndian 4 ?iterA = Exited ?pA" by code_simp
  have s1: "length ?subA = 4" by simp
  have s2: "inet_pton LittleEndian (?subA ! 1) = Some \<lparr>s_addr = 10\<rparr>" by code_simp
  have s3: "8 \<le>s atoi (?subA ! 2)" by code_simp
  have s4: "atoi (?subA ! 2) <s 32" by code_simp
  have s5: "ntohl LittleEndian (s_addr \<lparr>s_addr = 10\<rparr>) AND subnet_size (atoi (?subA ! 2)) = 0"
    by code_simp
  have b1: "exit_status (main_sub LittleEndian ?subB) \<noteq> 0" by code_simp
  have b2: "main_iter LittleEndian 4 ?iterB = Exited ?pB" by code_simp
  note A = no_failure_after_validation [where e = LittleEndian and w = "- 1" and argv = ?subA
      and n = 4 and argv' = ?iterA and p = ?pA and start_addr = "\<lparr>s_addr = 50331658\<rparr>"
      and end_addr = "\<lparr>s_addr = 83886090\<rparr>" and base = "\<lparr>s_addr = 10\<rparr>"]
  note B = no_failure_after_validation [where e = LittleEndian and w = 0 and argv = ?subB
      and n = 4 and argv' = ?iterB and p = ?pB and start_addr = "\<lparr>s_addr = 0\<rparr>"
      and end_addr = "\<lparr>s_addr = 0\<rparr>" and base = "\<lparr>s_addr = 0\<rparr>"]
  note A1 = A [THEN conjunct1, unfolded t]
  note A6 = A [THEN conjunct2, THEN conjunct2, THEN conjunct2, THEN conjunct2, THEN conjunct2,
      THEN conjunct1, THEN mp, OF conjI [OF a1 conjI [OF a2 conjI [OF a3 conjI [OF a4 a5]]]]]
  note A7 = A [THEN conjunct2, THEN conjunct2, THEN conjunct2, THEN conjunct2, THEN conjunct2,
      THEN conjunct2, THEN mp, OF conjI [OF s1 conjI [OF s2 conjI [OF s3 conjI [OF s4 s5]]]]]
  note B4 = B [THEN conjunct2, THEN conjunct2, THEN conjunct2, THEN conjunct1, THEN mp, OF b1]
  note B5 = B [THEN conjunct2, THEN conjunct2, THEN conjunct2, THEN conjunct2, THEN conjunct1,
      THEN mp, OF b2, THEN conjunct1]
  show ?thesis
    by (intro conjI A1 a1 a2 a3 a4 a5 A6 s1 s2 s3 s4 s5 A7 b1 B4 b2 B5)
qed

end
